theory Spec2Isabelle
  imports Complex_Main "HOL-Library.AList"
begin

section \<open>Values exchanged with the client and the datastore\<close>

text \<open>
  The handlers of \<^verbatim>\<open>app.js\<close> receive the request body as parsed by
  \<^verbatim>\<open>express.json()\<close> and answer with JSON. A JavaScript number is a double; the
  handlers never calculate with one, so a number is kept as what it denotes.
\<close>

datatype number = NaN | Infinite bool | Finite rat

datatype json =
    JNull
  | JBool bool
  | JNum number
  | JStr string
  | JArr "json list"
  | JObj "(string \<times> json) list"

type_synonym row = "(string \<times> json) list"

text \<open>Decimal rendering of an array index, as the property name JavaScript gives it.\<close>

definition digit :: "nat \<Rightarrow> char" where
  "digit d =
     (if d = 0 then CHR ''0'' else if d = 1 then CHR ''1'' else if d = 2 then CHR ''2''
      else if d = 3 then CHR ''3'' else if d = 4 then CHR ''4'' else if d = 5 then CHR ''5''
      else if d = 6 then CHR ''6'' else if d = 7 then CHR ''7'' else if d = 8 then CHR ''8''
      else CHR ''9'')"

fun dec :: "nat \<Rightarrow> string" where
  "dec n = (if n < 10 then [digit n] else dec (n div 10) @ [digit (n mod 10)])"

declare dec.simps [simp del]

text \<open>
  The own enumerable properties of a value, in order: what \<^verbatim>\<open>{...request.body}\<close>
  copies. An array spreads to its indices, a string to its characters, every other
  primitive to nothing.
\<close>

fun own_props :: "json \<Rightarrow> row" where
  "own_props (JObj kvs) = kvs"
| "own_props (JArr xs) = zip (map dec [0..<length xs]) xs"
| "own_props (JStr cs) = zip (map dec [0..<length cs]) (map (\<lambda>c. JStr [c]) cs)"
| "own_props v = []"

text \<open>
  Reading \<^verbatim>\<open>project.name\<close>: the own property of an object, \<^verbatim>\<open>undefined\<close> (here
  \<open>None\<close>) on an array, string, number or boolean, whose prototypes have no \<^verbatim>\<open>name\<close>.
\<close>

fun name_of :: "json \<Rightarrow> json option" where
  "name_of (JObj kvs) = map_of kvs ''name''"
| "name_of v = None"

text \<open>JavaScript truthiness, as \<^verbatim>\<open>!project.name\<close> tests it.\<close>

fun truthy :: "json \<Rightarrow> bool" where
  "truthy JNull = False"
| "truthy (JBool b) = b"
| "truthy (JNum n) = (n \<noteq> NaN \<and> n \<noteq> Finite 0)"
| "truthy (JStr cs) = (cs \<noteq> [])"
| "truthy (JArr xs) = True"
| "truthy (JObj kvs) = True"

datatype payload = Json json | Text string

text \<open>
  What a handler does with a request: it sends a response with a status and a body, or an
  exception escapes it (the promise of the \<^verbatim>\<open>async\<close> handler rejects and nothing is
  sent).
\<close>

datatype outcome = Response nat payload | Uncaught string

section \<open>The datastore behind the query builder\<close>

text \<open>
  \<^verbatim>\<open>database\<close> is a knex instance over a relational store. A table is the list of its
  rows. What the program does not decide is supplied by the store itself: whether the
  promise of a query rejects, with which error, and which key an insert generates
  (\<open>answers\<close>, asked once per query, in order), and when a column value equals a query
  parameter (\<open>same\<close>; the parameter of a route is a string, the column a number). The
  queries issued are recorded in \<open>issued\<close>.
\<close>

datatype query =
    Select string
  | Where string string json
  | Insert string row string
  | Del string string json
  | Update string string json row string

datatype reply = Rejects json | Resolves json

record store =
  tables :: "string \<Rightarrow> row list"
  issued :: "query list"
  answers :: "nat \<Rightarrow> reply"
  same :: "json \<Rightarrow> json \<Rightarrow> bool"

definition ask :: "query \<Rightarrow> store \<Rightarrow> reply \<times> store" where
  "ask q s = (answers s (length (issued s)), s\<lparr>issued := issued s @ [q]\<rparr>)"

definition matching :: "store \<Rightarrow> string \<Rightarrow> json \<Rightarrow> row \<Rightarrow> bool" where
  "matching s col v r = (case map_of r col of None \<Rightarrow> False | Some c \<Rightarrow> same s c v)"

text \<open>\<^verbatim>\<open>database(t).select()\<close>\<close>

definition select_all :: "string \<Rightarrow> store \<Rightarrow> (json + row list) \<times> store" where
  "select_all t s =
     (case ask (Select t) s of
        (Rejects e, s') \<Rightarrow> (Inl e, s')
      | (Resolves k, s') \<Rightarrow> (Inr (tables s' t), s'))"

text \<open>\<^verbatim>\<open>database(t).where(col, v)\<close>\<close>

definition where_eq :: "string \<Rightarrow> string \<Rightarrow> json \<Rightarrow> store \<Rightarrow> (json + row list) \<times> store" where
  "where_eq t col v s =
     (case ask (Where t col v) s of
        (Rejects e, s') \<Rightarrow> (Inl e, s')
      | (Resolves k, s') \<Rightarrow> (Inr (filter (matching s' col v) (tables s' t)), s'))"

text \<open>
  \<^verbatim>\<open>database(t).insert(r, ret)\<close>: the row is stored with the key the store generates in
  column \<open>ret\<close>, and the keys of the inserted rows are returned.
\<close>

definition insert_row :: "string \<Rightarrow> row \<Rightarrow> string \<Rightarrow> store \<Rightarrow> (json + json list) \<times> store" where
  "insert_row t r ret s =
     (case ask (Insert t r ret) s of
        (Rejects e, s') \<Rightarrow> (Inl e, s')
      | (Resolves k, s') \<Rightarrow>
          (Inr [k], s'\<lparr>tables := (tables s')(t := tables s' t @ [AList.update ret k r])\<rparr>))"

text \<open>\<^verbatim>\<open>database(t).where(col, v).del()\<close>, which returns the number of rows removed.\<close>

definition del_where :: "string \<Rightarrow> string \<Rightarrow> json \<Rightarrow> store \<Rightarrow> (json + nat) \<times> store" where
  "del_where t col v s =
     (case ask (Del t col v) s of
        (Rejects e, s') \<Rightarrow> (Inl e, s')
      | (Resolves k, s') \<Rightarrow>
          (Inr (length (filter (matching s' col v) (tables s' t))),
           s'\<lparr>tables := (tables s')(t := filter (\<lambda>r. \<not> matching s' col v r) (tables s' t))\<rparr>))"

section \<open>The route handlers\<close>

definition not_found :: "string \<Rightarrow> payload" where
  "not_found palette_id =
     Json (JObj [(''error'', JStr (''Could not find palette with an id of '' @ palette_id))])"

definition failure :: "json \<Rightarrow> outcome" where
  "failure error = Response 500 (Json (JObj [(''error'', error)]))"

text \<open>\<^verbatim>\<open>app.get('/api/v1/projects', ...)\<close>\<close>

definition get_projects :: "store \<Rightarrow> outcome \<times> store" where
  "get_projects s =
     (case select_all ''projects'' s of
        (Inr projects, s') \<Rightarrow>
          (Response 200 (Json (JObj [(''projects'', JArr (map JObj projects))])), s')
      | (Inl error, s') \<Rightarrow> (failure error, s'))"

text \<open>\<^verbatim>\<open>app.get('/api/v1/palettes/:id', ...)\<close>\<close>

definition get_palette :: "string \<Rightarrow> store \<Rightarrow> outcome \<times> store" where
  "get_palette palette_id s =
     (case where_eq ''palettes'' ''id'' (JStr palette_id) s of
        (Inr palettes, s') \<Rightarrow>
          (case palettes of
             p # rest \<Rightarrow> (Response 200 (Json (JObj p)), s')
           | [] \<Rightarrow> (Response 404 (not_found palette_id), s'))
      | (Inl error, s') \<Rightarrow> (failure error, s'))"

text \<open>
  \<^verbatim>\<open>app.post('/api/v1/projects/:id/palettes', ...)\<close>. The loop over the required
  parameters calls \<^verbatim>\<open>palette.hasOwnProperty(requiredParameter)\<close> on the object built
  from the body: when the body has a property of that name itself, the call finds the
  body's value, which is no function, and throws a \<^verbatim>\<open>TypeError\<close> outside the
  \<^verbatim>\<open>try\<close> block.
\<close>

definition required :: "string list" where
  "required = [''name'', ''color_one'', ''color_two'', ''color_three'', ''color_four'',
     ''color_five'', ''projects_id'']"

datatype check = Pass | Missing string | NotAFunction

fun validate :: "string list \<Rightarrow> row \<Rightarrow> check" where
  "validate [] palette = Pass"
| "validate (requiredParameter # rest) palette =
     (if map_of palette ''hasOwnProperty'' \<noteq> None then NotAFunction
      else if map_of palette requiredParameter = None then Missing requiredParameter
      else validate rest palette)"

definition missing_message :: "string \<Rightarrow> string" where
  \<open>missing_message requiredParameter =
     ''Expected body format is: { name: <String>, color_one: <String>, color_two: <String>, color_three: <String>, color_four: <String>, color_five: <String> }. You're missing the required "''
     @ requiredParameter @ ''" property.''\<close>

definition new_palette :: "(string \<Rightarrow> number) \<Rightarrow> string \<Rightarrow> json \<Rightarrow> row" where
  "new_palette Number projects_id body =
     AList.update ''projects_id'' (JNum (Number projects_id)) (own_props body)"

definition created :: "json list \<Rightarrow> outcome" where
  "created ids = Response 201 (Json (JObj (case ids of [] \<Rightarrow> [] | k # rest \<Rightarrow> [(''id'', k)])))"

definition post_palette :: "(string \<Rightarrow> number) \<Rightarrow> string \<Rightarrow> json \<Rightarrow> store \<Rightarrow> outcome \<times> store" where
  "post_palette Number projects_id body s =
     (let palette = new_palette Number projects_id body in
      case validate required palette of
        NotAFunction \<Rightarrow> (Uncaught ''TypeError: palette.hasOwnProperty is not a function'', s)
      | Missing requiredParameter \<Rightarrow>
          (Response 422 (Json (JObj [(''error'', JStr (missing_message requiredParameter))])), s)
      | Pass \<Rightarrow>
          (case insert_row ''palettes'' palette ''id'' s of
             (Inr ids, s') \<Rightarrow> (created ids, s')
           | (Inl error, s') \<Rightarrow> (failure error, s')))"

text \<open>
  \<^verbatim>\<open>app.post('/api/v1/projects', ...)\<close>. Reading a property of \<^verbatim>\<open>null\<close> throws;
  \<^verbatim>\<open>express.json()\<close> in its strict mode hands over objects and arrays only.
\<close>

definition missing_name :: payload where
  \<open>missing_name = Json (JObj [(''error'',
     JStr ''Expected body format {name: <String>}. You're missing the required name property'')])\<close>

definition post_project :: "json \<Rightarrow> store \<Rightarrow> outcome \<times> store" where
  "post_project project s =
     (if project = JNull then
        (Uncaught ''TypeError: Cannot read properties of null'', s)
      else if \<not> (case name_of project of None \<Rightarrow> False | Some v \<Rightarrow> truthy v) then
        (Response 422 missing_name, s)
      else
        (case insert_row ''projects'' (own_props project) ''id'' s of
           (Inr ids, s') \<Rightarrow> (created ids, s')
         | (Inl error, s') \<Rightarrow> (failure error, s')))"

text \<open>\<^verbatim>\<open>app.delete('/api/v1/palettes/:id', ...)\<close>\<close>

definition removed :: "string \<Rightarrow> payload" where
  "removed palettes_id =
     Text (''Palette with id '' @ palettes_id @ '' has been removed successfully'')"

definition delete_palette :: "string \<Rightarrow> store \<Rightarrow> outcome \<times> store" where
  "delete_palette palettes_id s =
     (case where_eq ''palettes'' ''id'' (JStr palettes_id) s of
        (Inr found, s') \<Rightarrow>
          (if found \<noteq> [] then
             (case del_where ''palettes'' ''id'' (JStr palettes_id) s' of
                (Inr n, s'') \<Rightarrow> (Response 200 (removed palettes_id), s'')
              | (Inl error, s'') \<Rightarrow> (failure error, s''))
           else (Response 404 (not_found palettes_id), s'))
      | (Inl error, s') \<Rightarrow> (failure error, s'))"

text \<open>
  The five handlers of the source as one server: a request is a route with its path
  parameter and body. \<open>Number\<close> is JavaScript's conversion of a string to a number.
\<close>

datatype request =
    GET_projects
  | GET_palette string
  | POST_palette string json
  | POST_project json
  | DELETE_palette string

fun handle :: "(string \<Rightarrow> number) \<Rightarrow> request \<Rightarrow> store \<Rightarrow> outcome \<times> store" where
  "handle Number GET_projects s = get_projects s"
| "handle Number (GET_palette palette_id) s = get_palette palette_id s"
| "handle Number (POST_palette projects_id body) s = post_palette Number projects_id body s"
| "handle Number (POST_project project) s = post_project project s"
| "handle Number (DELETE_palette palettes_id) s = delete_palette palettes_id s"

section \<open>Handlers that are not among the source files\<close>

text \<open>
  Modelled from the spec: the PATCH handlers, which are missing from the source files,
  "update name"; \<open>merge\<close> writes the columns of an update into a row.
\<close>

definition merge :: "row \<Rightarrow> row \<Rightarrow> row" where
  "merge changes r = foldl (\<lambda>acc (k, x). AList.update k x acc) r changes"

text \<open>
  Modelled from the spec: the update query of the missing PATCH handlers, taken to be
  \<^verbatim>\<open>database(t).where(col, v).update(changes, ret)\<close>: the columns of \<open>changes\<close> are
  set in every row that matches, and column \<open>ret\<close> of those rows is returned.
\<close>

definition update_where ::
  "string \<Rightarrow> string \<Rightarrow> json \<Rightarrow> row \<Rightarrow> string \<Rightarrow> store \<Rightarrow> (json + json list) \<times> store" where
  "update_where t col v changes ret s =
     (case ask (Update t col v changes ret) s of
        (Rejects e, s') \<Rightarrow> (Inl e, s')
      | (Resolves k, s') \<Rightarrow>
          (Inr (map (\<lambda>r. case map_of r ret of None \<Rightarrow> JNull | Some c \<Rightarrow> c)
                  (filter (matching s' col v) (tables s' t))),
           s'\<lparr>tables := (tables s')(t :=
                 map (\<lambda>r. if matching s' col v r then merge changes r else r) (tables s' t))\<rparr>))"

text \<open>
  Modelled from the spec: "case-insensitively contains", for the missing handler of
  \<^verbatim>\<open>GET /api/v1/palettes\<close>: both strings are put in upper case.
\<close>

definition upper :: "char \<Rightarrow> char" where
  "upper c =
     (case map_of (zip ''abcdefghijklmnopqrstuvwxyz'' ''ABCDEFGHIJKLMNOPQRSTUVWXYZ'') c of
        None \<Rightarrow> c
      | Some u \<Rightarrow> u)"

text \<open>
  Modelled from the spec: "contains that fragment", for the same missing handler: the
  fragment starts at some position of the string.
\<close>

fun occurs_in :: "'a list \<Rightarrow> 'a list \<Rightarrow> bool" where
  "occurs_in fragment [] = (fragment = [])"
| "occurs_in fragment (c # cs) =
     (take (length fragment) (c # cs) = fragment \<or> occurs_in fragment cs)"

text \<open>
  Modelled from the spec: the well-formed \<^verbatim>\<open>color\<close> parameter of the same missing
  handler, "exactly 6 hex characters".
\<close>

definition hex6 :: "string \<Rightarrow> bool" where
  "hex6 color = (length color = 6 \<and> list_all (\<lambda>c. c \<in> set ''0123456789abcdefABCDEF'') color)"

text \<open>Modelled from the spec: "the five color fields" of a palette (section 3).\<close>

definition color_fields :: "string list" where
  "color_fields = [''color_one'', ''color_two'', ''color_three'', ''color_four'', ''color_five'']"

text \<open>
  Modelled from the spec: the filter of the same missing handler, "palettes where any of
  the five color fields case-insensitively contains that fragment".
\<close>

definition has_color :: "string \<Rightarrow> row \<Rightarrow> bool" where
  "has_color color r =
     list_ex (\<lambda>field. case map_of r field of
                        Some (JStr v) \<Rightarrow> occurs_in (map upper color) (map upper v)
                      | _ \<Rightarrow> False) color_fields"

text \<open>
  Modelled from the spec: the "fixed-format error message" of the same missing handler,
  with the text its test in \<^verbatim>\<open>app.test.js\<close> expects.
\<close>

definition bad_color :: payload where
  \<open>bad_color = Json (JObj [(''error'',
     JStr ''Expected query format is: "?color=" + <6 character hex code>.  Do not include "#" before the hex characters.'')])\<close>

text \<open>Modelled from the spec: the body \<^verbatim>\<open>{palettes: [...]}\<close> of the same missing handler.\<close>

definition listing :: "row list \<Rightarrow> outcome" where
  "listing palettes = Response 200 (Json (JObj [(''palettes'', JArr (map JObj palettes))]))"

text \<open>
  Modelled from the spec: the handler of \<^verbatim>\<open>GET /api/v1/palettes\<close> is missing from the
  source files; only its tests are there. Section 4.1: it returns all palettes as
  \<^verbatim>\<open>{palettes: [...]}\<close> with status 200; with the optional query parameter
  \<^verbatim>\<open>color\<close>, a fragment of 6 hex characters, it keeps the palettes in which one of the
  five color fields contains the fragment, whatever the case of the letters; a parameter
  that is not 6 hex characters gets 422 with a fixed message (the text is the one the
  test expects); a datastore error gets 500 with \<^verbatim>\<open>{error}\<close>.
\<close>

definition get_palettes :: "string option \<Rightarrow> store \<Rightarrow> outcome \<times> store" where
  "get_palettes color s =
     (case color of
        None \<Rightarrow>
          (case select_all ''palettes'' s of
             (Inr palettes, s') \<Rightarrow> (listing palettes, s')
           | (Inl error, s') \<Rightarrow> (failure error, s'))
      | Some c \<Rightarrow>
          if hex6 c then
            (case select_all ''palettes'' s of
               (Inr palettes, s') \<Rightarrow> (listing (filter (has_color c) palettes), s')
             | (Inl error, s') \<Rightarrow> (failure error, s'))
          else (Response 422 bad_color, s))"

text \<open>
  Modelled from the spec: the "fixed-format message" of the missing PATCH handlers, with
  the text their tests in \<^verbatim>\<open>app.test.js\<close> expect.
\<close>

definition only_name :: payload where
  \<open>only_name = Json (JObj [(''error'',
     JStr ''Expected body format is: { name: <String> }. You must send only the required "name" property.'')])\<close>

text \<open>
  Modelled from the spec: the 404 body of the missing PATCH handlers, with the text
  their tests expect (the one of the DELETE handler of the source, for either noun).
\<close>

definition absent :: "string \<Rightarrow> string \<Rightarrow> payload" where
  "absent noun ident =
     Json (JObj [(''error'', JStr (''Could not find '' @ noun @ '' with an id of '' @ ident))])"

text \<open>
  Modelled from the spec: the handlers of \<^verbatim>\<open>PATCH /api/v1/projects/:id\<close> and
  \<^verbatim>\<open>PATCH /api/v1/palettes/:id\<close> are missing from the source files; only their tests
  are there. Section 4.1: the body must contain exactly \<^verbatim>\<open>{name}\<close>, any other
  property gets 422 with a fixed message; a target id that is not found gets 404; success
  updates the name and answers 200 with \<^verbatim>\<open>{id}\<close>; a datastore error gets 500. The
  messages are the ones the tests expect, and \<^verbatim>\<open>{id}\<close> is the key the store returns
  for the updated row, as in the two POST handlers of the source. The spec does not say
  which check decides when the body is wrong and the id is absent as well:
  \<open>lookup_first\<close> selects between the two orders.
\<close>

definition patch_name ::
  "bool \<Rightarrow> string \<Rightarrow> string \<Rightarrow> string \<Rightarrow> json \<Rightarrow> store \<Rightarrow> outcome \<times> store" where
  "patch_name lookup_first t noun ident body s =
     (let valid = (map fst (own_props body) = [''name'']) in
      if \<not> lookup_first \<and> \<not> valid then (Response 422 only_name, s)
      else
        (case where_eq t ''id'' (JStr ident) s of
           (Inr found, s') \<Rightarrow>
             (if found = [] then (Response 404 (absent noun ident), s')
              else if \<not> valid then (Response 422 only_name, s')
              else
                (case update_where t ''id'' (JStr ident) (own_props body) ''id'' s' of
                   (Inr ids, s'') \<Rightarrow>
                     (Response 200 (Json (JObj (case ids of [] \<Rightarrow> [] | k # rest \<Rightarrow> [(''id'', k)]))), s'')
                 | (Inl error, s'') \<Rightarrow> (failure error, s'')))
         | (Inl error, s') \<Rightarrow> (failure error, s')))"

text \<open>Modelled from the spec: \<^verbatim>\<open>PATCH /api/v1/projects/:id\<close>, missing from the source files.\<close>

definition patch_project :: "bool \<Rightarrow> string \<Rightarrow> json \<Rightarrow> store \<Rightarrow> outcome \<times> store" where
  "patch_project lookup_first = patch_name lookup_first ''projects'' ''project''"

text \<open>Modelled from the spec: \<^verbatim>\<open>PATCH /api/v1/palettes/:id\<close>, missing from the source files.\<close>

definition patch_palette :: "bool \<Rightarrow> string \<Rightarrow> json \<Rightarrow> store \<Rightarrow> outcome \<times> store" where
  "patch_palette lookup_first = patch_name lookup_first ''palettes'' ''palette''"

section \<open>A seeded store\<close>

text \<open>
  One project with two palettes, as the seed of the test suite provides, in a store whose
  queries resolve and whose next generated key is 3. A numeric column equals a route
  parameter when the parameter is its decimal rendering.
\<close>

definition as_text :: "json \<Rightarrow> json \<Rightarrow> bool" where
  "as_text c v =
     (case c of
        JNum (Finite q) \<Rightarrow> 0 \<le> q \<and> q = of_int \<lfloor>q\<rfloor> \<and> v = JStr (dec (nat \<lfloor>q\<rfloor>))
      | _ \<Rightarrow> v = c)"

definition warm :: row where
  "warm = [(''id'', JNum (Finite 1)), (''name'', JStr ''Warm''),
     (''color_one'', JStr ''#FFFFFF''), (''color_two'', JStr ''#222222''),
     (''color_three'', JStr ''#333333''), (''color_four'', JStr ''#444444''),
     (''color_five'', JStr ''#555555''), (''projects_id'', JNum (Finite 1))]"

definition cool :: row where
  "cool = [(''id'', JNum (Finite 2)), (''name'', JStr ''Cool''),
     (''color_one'', JStr ''#111111''), (''color_two'', JStr ''#222222''),
     (''color_three'', JStr ''#333333''), (''color_four'', JStr ''#444444''),
     (''color_five'', JStr ''#abcdef''), (''projects_id'', JNum (Finite 1))]"

definition home :: row where
  "home = [(''id'', JNum (Finite 1)), (''name'', JStr ''Home'')]"

definition seeded :: store where
  "seeded = \<lparr>tables = (\<lambda>t. if t = ''palettes'' then [warm, cool]
                          else if t = ''projects'' then [home]
                          else []),
              issued = [],
              answers = (\<lambda>n. Resolves (JNum (Finite 3))),
              same = as_text\<rparr>"

text \<open>The same store when the datastore is down: every query rejects.\<close>

definition down :: store where
  "down = seeded\<lparr>answers := (\<lambda>n. Rejects (JStr ''ECONNREFUSED''))\<rparr>"

text \<open>The same store when the connection is lost after the first query.\<close>

definition flaky :: store where
  "flaky = seeded\<lparr>answers := (\<lambda>n. if n = 0 then Resolves JNull else Rejects (JStr ''ETIMEDOUT''))\<rparr>"

definition to_number :: "string \<Rightarrow> number" where
  "to_number cs = (if cs = ''1'' then Finite 1 else NaN)"

section \<open>States the theorems speak about\<close>

text \<open>The store as a query that resolves or rejects without a write leaves it.\<close>

definition asked :: "query \<Rightarrow> store \<Rightarrow> store" where
  "asked q s = s\<lparr>issued := issued s @ [q]\<rparr>"

text \<open>The palettes the store finds for a route parameter.\<close>

definition present :: "string \<Rightarrow> store \<Rightarrow> row list" where
  "present palette_id s = filter (matching s ''id'' (JStr palette_id)) (tables s ''palettes'')"

section \<open>Facts about the store\<close>

lemma matching_issued [simp]: "matching (s\<lparr>issued := l\<rparr>) = matching s"
  by (simp add: matching_def fun_eq_iff split: option.split)

lemma matching_tables [simp]: "matching (s\<lparr>tables := f\<rparr>) = matching s"
  by (simp add: matching_def fun_eq_iff split: option.split)

lemma asked_simps [simp]:
  "issued (asked q s) = issued s @ [q]"
  "tables (asked q s) = tables s"
  "answers (asked q s) = answers s"
  "same (asked q s) = same s"
  "matching (asked q s) = matching s"
  by (simp_all add: asked_def)

lemma select_all_answer:
  "select_all t s =
     (case answers s (length (issued s)) of
        Rejects e \<Rightarrow> (Inl e, asked (Select t) s)
      | Resolves k \<Rightarrow> (Inr (tables s t), asked (Select t) s))"
  by (simp add: select_all_def ask_def asked_def split: reply.split)

lemma where_eq_answer:
  "where_eq t col v s =
     (case answers s (length (issued s)) of
        Rejects e \<Rightarrow> (Inl e, asked (Where t col v) s)
      | Resolves k \<Rightarrow> (Inr (filter (matching s col v) (tables s t)), asked (Where t col v) s))"
  by (simp add: where_eq_def ask_def asked_def split: reply.split)

lemma where_eq_resolves:
  "answers s (length (issued s)) = Resolves k \<Longrightarrow>
   where_eq t col v s = (Inr (filter (matching s col v) (tables s t)), asked (Where t col v) s)"
  by (simp add: where_eq_answer)

lemma insert_row_answer:
  "insert_row t r ret s =
     (case answers s (length (issued s)) of
        Rejects e \<Rightarrow> (Inl e, asked (Insert t r ret) s)
      | Resolves k \<Rightarrow>
          (Inr [k], s\<lparr>issued := issued s @ [Insert t r ret],
                      tables := (tables s)(t := tables s t @ [AList.update ret k r])\<rparr>))"
  by (simp add: insert_row_def ask_def asked_def split: reply.split)

lemma del_where_resolves:
  "answers s (length (issued s)) = Resolves k \<Longrightarrow>
   del_where t col v s =
     (Inr (length (filter (matching s col v) (tables s t))),
      s\<lparr>issued := issued s @ [Del t col v],
        tables := (tables s)(t := filter (\<lambda>r. \<not> matching s col v r) (tables s t))\<rparr>)"
  by (simp add: del_where_def ask_def)

lemma update_where_answer:
  "update_where t col v changes ret s =
     (case answers s (length (issued s)) of
        Rejects e \<Rightarrow> (Inl e, asked (Update t col v changes ret) s)
      | Resolves k \<Rightarrow>
          (Inr (map (\<lambda>r. case map_of r ret of None \<Rightarrow> JNull | Some c \<Rightarrow> c)
                  (filter (matching s col v) (tables s t))),
           s\<lparr>issued := issued s @ [Update t col v changes ret],
             tables := (tables s)(t :=
                 map (\<lambda>r. if matching s col v r then merge changes r else r) (tables s t))\<rparr>))"
  by (simp add: update_where_def ask_def asked_def split: reply.split)

lemma merge_name [simp]: "merge [(''name'', v)] r = AList.update ''name'' v r"
  by (simp add: merge_def)

lemma update_update_same: "AList.update k v (AList.update k w al) = AList.update k v al"
  by (induction al) auto

section \<open>Creating a palette\<close>

lemma validate_Missing_mem:
  "validate ps palette = Missing p \<Longrightarrow> p \<in> set ps \<and> map_of palette p = None"
  by (induction ps) (auto split: if_splits)

lemma validate_find:
  "map_of palette ''hasOwnProperty'' = None \<Longrightarrow>
   validate ps palette =
     (case find (\<lambda>p. map_of palette p = None) ps of None \<Rightarrow> Pass | Some p \<Rightarrow> Missing p)"
  by (induction ps) auto

lemma map_of_new_palette [simp]:
  "map_of (new_palette Number projects_id body) ''projects_id'' = Some (JNum (Number projects_id))"
  by (simp add: new_palette_def update_conv')

lemma missing_message_inject [simp]: "(missing_message p = missing_message q) = (p = q)"
  by (simp add: missing_message_def)

text \<open>
  What the handler does with a body that has no property named \<^verbatim>\<open>hasOwnProperty\<close>:
  the first required parameter that the palette lacks, in the order of the list, is named
  in a 422 and the store is not touched; when none is lacking the palette is inserted as
  built, and the response is 201 with the key the store returned, or 500 with its error.
\<close>

lemma post_palette_unshadowed:
  assumes "map_of (own_props body) ''hasOwnProperty'' = None"
  shows "post_palette Number projects_id body s =
    (case find (\<lambda>p. map_of (new_palette Number projects_id body) p = None) required of
       Some p \<Rightarrow> (Response 422 (Json (JObj [(''error'', JStr (missing_message p))])), s)
     | None \<Rightarrow>
        (case answers s (length (issued s)) of
           Resolves k \<Rightarrow>
             (Response 201 (Json (JObj [(''id'', k)])),
              s\<lparr>issued := issued s @ [Insert ''palettes'' (new_palette Number projects_id body) ''id''],
                tables := (tables s)(''palettes'' := tables s ''palettes'' @
                   [AList.update ''id'' k (new_palette Number projects_id body)])\<rparr>)
         | Rejects e \<Rightarrow>
             (Response 500 (Json (JObj [(''error'', e)])),
              asked (Insert ''palettes'' (new_palette Number projects_id body) ''id'') s)))"
proof -
  have "map_of (new_palette Number projects_id body) ''hasOwnProperty'' = None"
    using assms by (simp add: new_palette_def update_conv')
  from validate_find [OF this, of required] show ?thesis
    by (simp add: post_palette_def Let_def insert_row_answer created_def failure_def
        split: option.split reply.split)
qed

text \<open>
  The two requests of the test suite: the palette without a name is refused with the
  message that names \<^verbatim>\<open>"name"\<close>, whatever \<^verbatim>\<open>projects_id\<close> its body carries, and the
  complete palette is inserted under the project of the path.
\<close>

lemma post_palette_without_name:
  \<open>post_palette Number ''1''
     (JObj [(''color_one'', JStr ''#111111''), (''color_two'', JStr ''#222222''),
            (''color_three'', JStr ''#333333''), (''color_four'', JStr ''#444444''),
            (''color_five'', JStr ''#555555''), (''projects_id'', JNum (Finite 1))]) s =
     (Response 422 (Json (JObj [(''error'', JStr
        ''Expected body format is: { name: <String>, color_one: <String>, color_two: <String>, color_three: <String>, color_four: <String>, color_five: <String> }. You're missing the required "name" property.'')])),
      s)\<close>
  by (simp add: post_palette_def Let_def new_palette_def required_def missing_message_def)

lemma post_palette_complete:
  "post_palette to_number ''1''
     (JObj [(''name'', JStr ''new palette''), (''color_one'', JStr ''#111111''),
            (''color_two'', JStr ''#222222''), (''color_three'', JStr ''#333333''),
            (''color_four'', JStr ''#444444''), (''color_five'', JStr ''#555555'')]) seeded =
     (Response 201 (Json (JObj [(''id'', JNum (Finite 3))])),
      seeded\<lparr>issued := [Insert ''palettes''
                 [(''name'', JStr ''new palette''), (''color_one'', JStr ''#111111''),
                  (''color_two'', JStr ''#222222''), (''color_three'', JStr ''#333333''),
                  (''color_four'', JStr ''#444444''), (''color_five'', JStr ''#555555''),
                  (''projects_id'', JNum (Finite 1))] ''id''],
             tables := (tables seeded)(''palettes'' := [warm, cool,
                 [(''name'', JStr ''new palette''), (''color_one'', JStr ''#111111''),
                  (''color_two'', JStr ''#222222''), (''color_three'', JStr ''#333333''),
                  (''color_four'', JStr ''#444444''), (''color_five'', JStr ''#555555''),
                  (''projects_id'', JNum (Finite 1)), (''id'', JNum (Finite 3))]])\<rparr>)"
  by (simp add: post_palette_def Let_def new_palette_def required_def insert_row_answer
      created_def to_number_def seeded_def)

text \<open>
  C1. A body that lacks a required field must get a 422 that names the first missing field,
  and no insert. The handler does so unless the body has a property named
  \<^verbatim>\<open>hasOwnProperty\<close>: the body \<^verbatim>\<open>{"hasOwnProperty": true}\<close> lacks \<^verbatim>\<open>name\<close> and all
  five colors, and the handler sends no response at all, since the call
  \<^verbatim>\<open>palette.hasOwnProperty('name')\<close> throws outside the \<^verbatim>\<open>try\<close> block.
\<close>

theorem shadowed_hasOwnProperty_no_422:
  "post_palette Number projects_id (JObj [(''hasOwnProperty'', JBool True)]) s =
     (Uncaught ''TypeError: palette.hasOwnProperty is not a function'', s)"
  by (simp add: post_palette_def Let_def new_palette_def required_def)

text \<open>
  C2. A body with \<^verbatim>\<open>name\<close> and the five colors must have the palette inserted, with
  \<^verbatim>\<open>projects_id\<close> from the path, and get 201 with the key of the insert. With a
  seventh property named \<^verbatim>\<open>hasOwnProperty\<close> in such a body the handler throws before it
  reaches the insert: nothing is inserted and no response is sent.
\<close>

theorem shadowed_hasOwnProperty_no_insert:
  "post_palette Number projects_id
     (JObj [(''name'', JStr ''new palette''), (''color_one'', JStr ''#111111''),
            (''color_two'', JStr ''#222222''), (''color_three'', JStr ''#333333''),
            (''color_four'', JStr ''#444444''), (''color_five'', JStr ''#555555''),
            (''hasOwnProperty'', JBool True)]) s =
     (Uncaught ''TypeError: palette.hasOwnProperty is not a function'', s)"
  by (simp add: post_palette_def Let_def new_palette_def required_def)

section \<open>Creating a project\<close>

text \<open>
  C3, as the handler has it. The handler tests \<^verbatim>\<open>!project.name\<close>, the truthiness of
  the name and not its presence. A body whose name is truthy (a non-empty string, say) is
  inserted as it is, and the response is 201 with the key the store returned, or 500 with
  the error of the store when the insert fails. A body without a name, or with the name
  \<^verbatim>\<open>""\<close>, \<^verbatim>\<open>0\<close>, \<^verbatim>\<open>false\<close> or \<^verbatim>\<open>null\<close>, and every array, gets 422 with exactly
  \<^verbatim>\<open>{error: 'Expected body format {name: <String>}. You're missing the required name property'}\<close>,
  and the store is not touched.
\<close>

theorem post_project_truthy_name:
  "post_project (JObj kvs) s =
     (case map_of kvs ''name'' of
        None \<Rightarrow> (Response 422 (Json (JObj [(''error'',
           JStr ''Expected body format {name: <String>}. You're missing the required name property'')])), s)
      | Some v \<Rightarrow>
          if truthy v then
            (case answers s (length (issued s)) of
               Resolves k \<Rightarrow>
                 (Response 201 (Json (JObj [(''id'', k)])),
                  s\<lparr>issued := issued s @ [Insert ''projects'' kvs ''id''],
                    tables := (tables s)(''projects'' :=
                      tables s ''projects'' @ [AList.update ''id'' k kvs])\<rparr>)
             | Rejects e \<Rightarrow>
                 (Response 500 (Json (JObj [(''error'', e)])), asked (Insert ''projects'' kvs ''id'') s))
          else (Response 422 (Json (JObj [(''error'',
           JStr ''Expected body format {name: <String>}. You're missing the required name property'')])), s))
   \<and> post_project (JArr xs) s =
       (Response 422 (Json (JObj [(''error'',
           JStr ''Expected body format {name: <String>}. You're missing the required name property'')])), s)"
  by (simp add: post_project_def insert_row_answer created_def failure_def missing_name_def
      split: option.split reply.split)

text \<open>
  The body \<^verbatim>\<open>{"name": ""}\<close> contains a name, and the response is 422, not 201; nothing
  is inserted.
\<close>

theorem post_project_empty_name_422:
  "map_of [(''name'', JStr [])] ''name'' = Some (JStr [])
   \<and> post_project (JObj [(''name'', JStr [])]) seeded =
     (Response 422 (Json (JObj [(''error'',
        JStr ''Expected body format {name: <String>}. You're missing the required name property'')])),
      seeded)"
  by (simp add: post_project_def missing_name_def)

section \<open>Reading a single palette\<close>

text \<open>
  C6. GET /palettes/:id, when the query resolves: if a palette with that id exists, the
  response is 200 and its body is that palette itself (the first one the store finds), a
  JSON object that is neither an array nor wrapped in another object; if none exists,
  the response is 404 and its body is exactly
  \<^verbatim>\<open>{error: "Could not find palette with an id of <id>"}\<close>. The tables are only read.
\<close>

theorem get_palette_found_or_404:
  assumes "answers s (length (issued s)) = Resolves k"
  shows "get_palette palette_id s =
           (case present palette_id s of
              p # rest \<Rightarrow> Response 200 (Json (JObj p))
            | [] \<Rightarrow> Response 404 (Json (JObj [(''error'',
                      JStr (''Could not find palette with an id of '' @ palette_id))])),
            asked (Where ''palettes'' ''id'' (JStr palette_id)) s)"
  using assms
  by (simp add: get_palette_def where_eq_resolves present_def not_found_def split: list.split)

theorem get_palette_found_or_404_witness:
  "answers seeded (length (issued seeded)) = Resolves (JNum (Finite 3))
   \<and> fst (get_palette ''1'' seeded) = Response 200 (Json (JObj warm))
   \<and> fst (get_palette ''-11'' seeded) = Response 404 (Json (JObj [(''error'',
        JStr ''Could not find palette with an id of -11'')]))"
  using get_palette_found_or_404 [of seeded "JNum (Finite 3)" "''1''"]
        get_palette_found_or_404 [of seeded "JNum (Finite 3)" "''-11''"]
  by (simp add: seeded_def present_def matching_def as_text_def warm_def cool_def dec.simps
      digit_def)

section \<open>Deleting a palette\<close>

text \<open>
  C4. DELETE /palettes/:id, when the queries resolve: if the id is present in the palettes
  table, the rows with that id are removed (the other rows and the other tables stay as
  they are) and the response is 200 with the plain text
  \<^verbatim>\<open>Palette with id <id> has been removed successfully\<close>; if the id is absent, the
  response is 404 with \<^verbatim>\<open>{error: "Could not find palette with an id of <id>"}\<close> and the
  tables are unchanged.
\<close>

theorem delete_palette_removes_or_404:
  assumes "answers s (length (issued s)) = Resolves k"
    and "answers s (Suc (length (issued s))) = Resolves k'"
  shows "fst (delete_palette palettes_id s) =
           (if present palettes_id s \<noteq> [] then
              Response 200
                (Text (''Palette with id '' @ palettes_id @ '' has been removed successfully''))
            else Response 404 (Json (JObj [(''error'',
                   JStr (''Could not find palette with an id of '' @ palettes_id))])))
       \<and> tables (snd (delete_palette palettes_id s)) =
           (if present palettes_id s \<noteq> [] then
              (tables s)(''palettes'' :=
                 filter (\<lambda>r. \<not> matching s ''id'' (JStr palettes_id) r) (tables s ''palettes''))
            else tables s)"
  using assms
  by (simp add: delete_palette_def where_eq_resolves del_where_resolves present_def
      not_found_def removed_def)

theorem delete_palette_removes_or_404_witness:
  "answers seeded (length (issued seeded)) = Resolves (JNum (Finite 3))
   \<and> answers seeded (Suc (length (issued seeded))) = Resolves (JNum (Finite 3))
   \<and> fst (delete_palette ''2'' seeded) =
       Response 200 (Text ''Palette with id 2 has been removed successfully'')
   \<and> tables (snd (delete_palette ''2'' seeded)) ''palettes'' = [warm]
   \<and> fst (delete_palette ''-4'' seeded) =
       Response 404 (Json (JObj [(''error'', JStr ''Could not find palette with an id of -4'')]))
   \<and> tables (snd (delete_palette ''-4'' seeded)) = tables seeded"
  using delete_palette_removes_or_404 [of seeded "JNum (Finite 3)" "JNum (Finite 3)" "''2''"]
        delete_palette_removes_or_404 [of seeded "JNum (Finite 3)" "JNum (Finite 3)" "''-4''"]
  by (simp add: seeded_def present_def matching_def as_text_def warm_def cool_def dec.simps
      digit_def)

lemma delete_palette_200:
  assumes "delete_palette palettes_id s = (Response 200 b, s1)"
  shows "present palettes_id s1 = []"
  using assms
  by (auto simp: delete_palette_def where_eq_def del_where_def ask_def present_def failure_def
      split: reply.splits if_splits)

lemma get_palette_absent:
  assumes "answers s (length (issued s)) = Resolves k" and "present palette_id s = []"
  shows "get_palette palette_id s =
    (Response 404 (not_found palette_id), asked (Where ''palettes'' ''id'' (JStr palette_id)) s)"
  using assms by (simp add: get_palette_def where_eq_resolves present_def)

lemma delete_palette_absent:
  assumes "answers s (length (issued s)) = Resolves k" and "present palettes_id s = []"
  shows "delete_palette palettes_id s =
    (Response 404 (not_found palettes_id), asked (Where ''palettes'' ''id'' (JStr palettes_id)) s)"
  using assms by (simp add: delete_palette_def where_eq_resolves present_def)

text \<open>
  C5. After a DELETE of a palette id that was answered with 200, and while the store
  answers the next query, a GET of the same id is answered with 404, and so is a second
  DELETE of the same id (404, not 500); neither changes the tables, so the database is
  the same after the second DELETE as after the first.
\<close>

theorem delete_then_404:
  assumes "delete_palette palette_id s = (Response 200 b, s1)"
    and "answers s1 (length (issued s1)) = Resolves k"
  shows "fst (get_palette palette_id s1) = Response 404 (Json (JObj [(''error'',
             JStr (''Could not find palette with an id of '' @ palette_id))]))
       \<and> fst (delete_palette palette_id s1) = Response 404 (Json (JObj [(''error'',
             JStr (''Could not find palette with an id of '' @ palette_id))]))
       \<and> tables (snd (get_palette palette_id s1)) = tables s1
       \<and> tables (snd (delete_palette palette_id s1)) = tables s1"
proof -
  have gone: "present palette_id s1 = []"
    using assms(1) by (rule delete_palette_200)
  show ?thesis
    by (simp add: get_palette_absent [OF assms(2) gone] delete_palette_absent [OF assms(2) gone]
        not_found_def)
qed

theorem delete_then_404_witness:
  "delete_palette ''1'' seeded =
     (Response 200 (Text ''Palette with id 1 has been removed successfully''),
      seeded\<lparr>issued := [Where ''palettes'' ''id'' (JStr ''1''), Del ''palettes'' ''id'' (JStr ''1'')],
             tables := (tables seeded)(''palettes'' := [cool])\<rparr>)
   \<and> fst (get_palette ''1'' (snd (delete_palette ''1'' seeded))) =
       Response 404 (Json (JObj [(''error'', JStr ''Could not find palette with an id of 1'')]))
   \<and> fst (delete_palette ''1'' (snd (delete_palette ''1'' seeded))) =
       Response 404 (Json (JObj [(''error'', JStr ''Could not find palette with an id of 1'')]))
   \<and> tables (snd (delete_palette ''1'' (snd (delete_palette ''1'' seeded)))) =
       tables (snd (delete_palette ''1'' seeded))"
proof -
  have first: "delete_palette ''1'' seeded =
     (Response 200 (Text ''Palette with id 1 has been removed successfully''),
      seeded\<lparr>issued := [Where ''palettes'' ''id'' (JStr ''1''), Del ''palettes'' ''id'' (JStr ''1'')],
             tables := (tables seeded)(''palettes'' := [cool])\<rparr>)"
    by (simp add: delete_palette_def where_eq_def del_where_def ask_def removed_def seeded_def
        matching_def as_text_def warm_def cool_def dec.simps digit_def)
  have second: "answers (seeded\<lparr>issued := [Where ''palettes'' ''id'' (JStr ''1''),
        Del ''palettes'' ''id'' (JStr ''1'')],
      tables := (tables seeded)(''palettes'' := [cool])\<rparr>)
     (length (issued (seeded\<lparr>issued := [Where ''palettes'' ''id'' (JStr ''1''),
        Del ''palettes'' ''id'' (JStr ''1'')],
      tables := (tables seeded)(''palettes'' := [cool])\<rparr>))) = Resolves (JNum (Finite 3))"
    by (simp add: seeded_def)
  show ?thesis
    using delete_then_404 [OF first second] first by simp
qed


section \<open>Listing palettes by color\<close>

lemma occurs_in_iff: "occurs_in xs ys \<longleftrightarrow> (\<exists>pre post. ys = pre @ xs @ post)"
proof (induction ys)
  case Nil
  then show ?case by auto
next
  case (Cons y ys)
  show ?case
  proof
    assume "occurs_in xs (y # ys)"
    then consider "take (length xs) (y # ys) = xs" | "occurs_in xs ys" by auto
    then show "\<exists>pre post. y # ys = pre @ xs @ post"
    proof cases
      case 1
      then have "y # ys = [] @ xs @ drop (length xs) (y # ys)"
        by (metis append_Nil append_take_drop_id)
      then show ?thesis by blast
    next
      case 2
      with Cons.IH obtain pre post where "ys = pre @ xs @ post" by blast
      then have "y # ys = (y # pre) @ xs @ post" by simp
      then show ?thesis by blast
    qed
  next
    assume "\<exists>pre post. y # ys = pre @ xs @ post"
    then obtain pre post where eq: "y # ys = pre @ xs @ post" by blast
    show "occurs_in xs (y # ys)"
    proof (cases pre)
      case Nil
      with eq have "take (length xs) (y # ys) = xs" by simp
      then show ?thesis by simp
    next
      case (Cons p ps)
      with eq have "ys = ps @ xs @ post" by simp
      with Cons.IH have "occurs_in xs ys" by blast
      then show ?thesis by simp
    qed
  qed
qed

lemma has_color_iff:
  "has_color color r \<longleftrightarrow>
     (\<exists>field \<in> set color_fields. \<exists>v pre post.
        map_of r field = Some (JStr v) \<and> map upper v = pre @ map upper color @ post)"
proof -
  have inner: "(case m of Some (JStr v) \<Rightarrow> P v | _ \<Rightarrow> False) \<longleftrightarrow> (\<exists>v. m = Some (JStr v) \<and> P v)"
    for m :: "json option" and P
  proof (cases m)
    case None
    then show ?thesis by simp
  next
    case (Some j)
    then show ?thesis by (cases j) simp_all
  qed
  show ?thesis
    unfolding has_color_def list_ex_iff inner occurs_in_iff by blast
qed

text \<open>
  C7. GET /palettes, when the query resolves. With a \<^verbatim>\<open>color\<close> parameter of exactly 6 hex
  characters the response is 200 with exactly the palettes that \<open>has_color\<close> keeps: those
  in which one of the five color fields is a string that contains the fragment when both
  are put in upper case. With a \<^verbatim>\<open>color\<close> parameter of another shape the response is
  422 with the fixed message, and with no \<^verbatim>\<open>color\<close> parameter it is 200 with all
  palettes.
\<close>

theorem get_palettes_by_color:
  assumes "answers s (length (issued s)) = Resolves k"
  shows \<open>fst (get_palettes color s) =
     (case color of
        None \<Rightarrow> Response 200 (Json (JObj [(''palettes'', JArr (map JObj (tables s ''palettes'')))]))
      | Some c \<Rightarrow>
          if length c = 6 \<and> list_all (\<lambda>x. x \<in> set ''0123456789abcdefABCDEF'') c then
            Response 200 (Json (JObj [(''palettes'',
              JArr (map JObj (filter (has_color c) (tables s ''palettes''))))]))
          else Response 422 (Json (JObj [(''error'',
     JStr ''Expected query format is: "?color=" + <6 character hex code>.  Do not include "#" before the hex characters.'')])))
   \<and> (\<forall>c r. has_color c r \<longleftrightarrow>
         (\<exists>field \<in> set color_fields. \<exists>v pre post.
            map_of r field = Some (JStr v) \<and> map upper v = pre @ map upper c @ post))\<close>
proof (intro conjI allI)
  show \<open>fst (get_palettes color s) =
     (case color of
        None \<Rightarrow> Response 200 (Json (JObj [(''palettes'', JArr (map JObj (tables s ''palettes'')))]))
      | Some c \<Rightarrow>
          if length c = 6 \<and> list_all (\<lambda>x. x \<in> set ''0123456789abcdefABCDEF'') c then
            Response 200 (Json (JObj [(''palettes'',
              JArr (map JObj (filter (has_color c) (tables s ''palettes''))))]))
          else Response 422 (Json (JObj [(''error'',
     JStr ''Expected query format is: "?color=" + <6 character hex code>.  Do not include "#" before the hex characters.'')])))\<close>
    using assms
    by (simp add: get_palettes_def select_all_answer listing_def hex6_def bad_color_def
        split: option.split)
next
  fix c r
  show "has_color c r \<longleftrightarrow>
         (\<exists>field \<in> set color_fields. \<exists>v pre post.
            map_of r field = Some (JStr v) \<and> map upper v = pre @ map upper c @ post)"
    by (rule has_color_iff)
qed

theorem get_palettes_by_color_witness:
  "answers seeded (length (issued seeded)) = Resolves (JNum (Finite 3))
   \<and> fst (get_palettes (Some ''ABCDEF'') seeded) =
       Response 200 (Json (JObj [(''palettes'', JArr [JObj cool])]))
   \<and> fst (get_palettes (Some ''EEEEE'') seeded) = Response 422 bad_color
   \<and> fst (get_palettes None seeded) =
       Response 200 (Json (JObj [(''palettes'', JArr [JObj warm, JObj cool])]))"
proof -
  have up: "answers seeded (length (issued seeded)) = Resolves (JNum (Finite 3))"
    by (simp add: seeded_def)
  have tabs: "tables seeded ''palettes'' = [warm, cool]"
    by (simp add: seeded_def)
  have w: "\<not> has_color ''ABCDEF'' warm"
    by (simp add: has_color_def color_fields_def warm_def upper_def)
  have c: "has_color ''ABCDEF'' cool"
    by (simp add: has_color_def color_fields_def cool_def upper_def)
  show ?thesis
    using get_palettes_by_color [OF up, of "Some ''ABCDEF''", THEN conjunct1]
      get_palettes_by_color [OF up, of "Some ''EEEEE''", THEN conjunct1]
      get_palettes_by_color [OF up, of None, THEN conjunct1] up
    by (simp add: tabs w c bad_color_def)
qed

section \<open>Renaming a project or a palette\<close>

text \<open>
  C8. PATCH of a project or a palette (\<open>patch_project\<close> and \<open>patch_palette\<close> are
  \<open>patch_name\<close> on the two tables), when the queries resolve and whichever check comes
  first. On an existing id, a body of exactly \<^verbatim>\<open>{name}\<close> sets the name of the rows with
  that id and no other field of them, leaves every other row as it is, and is answered
  with 200 and \<^verbatim>\<open>{id}\<close>; a body with any property other than \<^verbatim>\<open>name\<close> is answered
  with 422 and the fixed message, and no row changes. On an id that does not exist, a
  body of exactly \<^verbatim>\<open>{name}\<close> is answered with 404.
\<close>

theorem patch_name_contract:
  assumes "answers s (length (issued s)) = Resolves k"
    and "answers s (Suc (length (issued s))) = Resolves k'"
  shows \<open>(\<forall>p rest c v.
            filter (matching s ''id'' (JStr ident)) (tables s t) = p # rest \<and> map_of p ''id'' = Some c
            \<and> own_props body = [(''name'', v)] \<longrightarrow>
              fst (patch_name lookup_first t noun ident body s) = Response 200 (Json (JObj [(''id'', c)]))
            \<and> tables (snd (patch_name lookup_first t noun ident body s)) =
                (tables s)(t := map (\<lambda>r. if matching s ''id'' (JStr ident) r
                                         then AList.update ''name'' v r else r) (tables s t))
            \<and> (\<forall>r field. field \<noteq> ''name'' \<longrightarrow>
                  map_of (AList.update ''name'' v r) field = map_of r field))
       \<and> (filter (matching s ''id'' (JStr ident)) (tables s t) \<noteq> []
            \<and> (\<exists>field \<in> set (map fst (own_props body)). field \<noteq> ''name'') \<longrightarrow>
              fst (patch_name lookup_first t noun ident body s) = Response 422 (Json (JObj [(''error'',
                JStr ''Expected body format is: { name: <String> }. You must send only the required "name" property.'')]))
            \<and> tables (snd (patch_name lookup_first t noun ident body s)) = tables s)
       \<and> (\<forall>v. filter (matching s ''id'' (JStr ident)) (tables s t) = []
            \<and> own_props body = [(''name'', v)] \<longrightarrow>
              fst (patch_name lookup_first t noun ident body s) = Response 404 (Json (JObj [(''error'',
                JStr (''Could not find '' @ noun @ '' with an id of '' @ ident))]))
            \<and> tables (snd (patch_name lookup_first t noun ident body s)) = tables s)\<close>
proof (intro conjI allI impI; (elim conjE)?)
  fix p rest c v
  assume found: "filter (matching s ''id'' (JStr ident)) (tables s t) = p # rest"
    and c: "map_of p ''id'' = Some c" and body: "own_props body = [(''name'', v)]"
  show "fst (patch_name lookup_first t noun ident body s) = Response 200 (Json (JObj [(''id'', c)]))"
    using assms found c body
    by (simp add: patch_name_def where_eq_answer update_where_answer)
  show "tables (snd (patch_name lookup_first t noun ident body s)) =
          (tables s)(t := map (\<lambda>r. if matching s ''id'' (JStr ident) r
                                   then AList.update ''name'' v r else r) (tables s t))"
    using assms found c body
    by (simp add: patch_name_def where_eq_answer update_where_answer cong: if_cong)
next
  fix r :: row and field v
  assume "field \<noteq> ''name''"
  then show "map_of (AList.update ''name'' v r) field = map_of r field"
    by (simp add: update_conv')
next
  assume found: "filter (matching s ''id'' (JStr ident)) (tables s t) \<noteq> []"
    and other: "\<exists>field \<in> set (map fst (own_props body)). field \<noteq> ''name''"
  from other have invalid: "map fst (own_props body) \<noteq> [''name'']" by auto
  show \<open>fst (patch_name lookup_first t noun ident body s) = Response 422 (Json (JObj [(''error'',
                JStr ''Expected body format is: { name: <String> }. You must send only the required "name" property.'')]))\<close>
    using assms found invalid
    by (simp add: patch_name_def where_eq_answer only_name_def)
  show "tables (snd (patch_name lookup_first t noun ident body s)) = tables s"
    using assms found invalid
    by (simp add: patch_name_def where_eq_answer)
next
  fix v
  assume found: "filter (matching s ''id'' (JStr ident)) (tables s t) = []"
    and body: "own_props body = [(''name'', v)]"
  show "fst (patch_name lookup_first t noun ident body s) = Response 404 (Json (JObj [(''error'',
                JStr (''Could not find '' @ noun @ '' with an id of '' @ ident))]))"
    using assms found body
    by (simp add: patch_name_def where_eq_answer absent_def)
  show "tables (snd (patch_name lookup_first t noun ident body s)) = tables s"
    using assms found body
    by (simp add: patch_name_def where_eq_answer)
qed

theorem patch_name_contract_witness:
  \<open>answers seeded (length (issued seeded)) = Resolves (JNum (Finite 3))
   \<and> answers seeded (Suc (length (issued seeded))) = Resolves (JNum (Finite 3))
   \<and> fst (patch_palette False ''2'' (JObj [(''name'', JStr ''Cold'')]) seeded) =
       Response 200 (Json (JObj [(''id'', JNum (Finite 2))]))
   \<and> tables (snd (patch_palette False ''2'' (JObj [(''name'', JStr ''Cold'')]) seeded)) ''palettes'' =
       [warm, AList.update ''name'' (JStr ''Cold'') cool]
   \<and> fst (patch_palette True ''2'' (JObj [(''color_one'', JStr ''Cold'')]) seeded) = Response 422 only_name
   \<and> tables (snd (patch_palette True ''2'' (JObj [(''color_one'', JStr ''Cold'')]) seeded)) = tables seeded
   \<and> fst (patch_project True ''-6'' (JObj [(''name'', JStr ''Updated Project Name'')]) seeded) =
       Response 404 (Json (JObj [(''error'', JStr ''Could not find project with an id of -6'')]))\<close>
proof -
  have up: "answers seeded (length (issued seeded)) = Resolves (JNum (Finite 3))"
    "answers seeded (Suc (length (issued seeded))) = Resolves (JNum (Finite 3))"
    by (simp_all add: seeded_def)
  have palettes: "tables seeded ''palettes'' = [warm, cool]"
    and projects: "tables seeded ''projects'' = [home]"
    by (simp_all add: seeded_def)
  have m1: "\<not> matching seeded ''id'' (JStr ''2'') warm"
    and m2: "matching seeded ''id'' (JStr ''2'') cool"
    and m3: "\<not> matching seeded ''id'' (JStr ''-6'') home"
    by (simp_all add: matching_def seeded_def as_text_def warm_def cool_def home_def dec.simps
        digit_def)
  have found: "filter (matching seeded ''id'' (JStr ''2'')) (tables seeded ''palettes'') = cool # []"
    by (simp add: palettes m1 m2)
  have key: "map_of cool ''id'' = Some (JNum (Finite 2))"
    by (simp add: cool_def)
  have none: "filter (matching seeded ''id'' (JStr ''-6'')) (tables seeded ''projects'') = []"
    by (simp add: projects m3)
  note contract = patch_name_contract [OF up]
  have renamed: "fst (patch_name False ''palettes'' ''palette'' ''2'' (JObj [(''name'', JStr ''Cold'')]) seeded) =
        Response 200 (Json (JObj [(''id'', JNum (Finite 2))]))
      \<and> tables (snd (patch_name False ''palettes'' ''palette'' ''2'' (JObj [(''name'', JStr ''Cold'')]) seeded)) =
        (tables seeded)(''palettes'' := map (\<lambda>r. if matching seeded ''id'' (JStr ''2'') r
                                   then AList.update ''name'' (JStr ''Cold'') r else r) (tables seeded ''palettes''))"
    using contract [of "''2''" "''palettes''" "JObj [(''name'', JStr ''Cold'')]" False "''palette''",
        THEN conjunct1, rule_format, of cool "[]" "JNum (Finite 2)" "JStr ''Cold''"] found key
    by simp
  have refused: \<open>fst (patch_name True ''palettes'' ''palette'' ''2'' (JObj [(''color_one'', JStr ''Cold'')]) seeded) =
        Response 422 (Json (JObj [(''error'',
                JStr ''Expected body format is: { name: <String> }. You must send only the required "name" property.'')]))
      \<and> tables (snd (patch_name True ''palettes'' ''palette'' ''2'' (JObj [(''color_one'', JStr ''Cold'')]) seeded)) =
        tables seeded\<close>
    using contract [of "''2''" "''palettes''" "JObj [(''color_one'', JStr ''Cold'')]" True "''palette''",
        THEN conjunct2, THEN conjunct1] found
    by simp
  have missing: "fst (patch_name True ''projects'' ''project'' ''-6'' (JObj [(''name'', JStr ''Updated Project Name'')]) seeded) =
        Response 404 (Json (JObj [(''error'', JStr (''Could not find '' @ ''project'' @ '' with an id of '' @ ''-6''))]))"
    using contract [of "''-6''" "''projects''" "JObj [(''name'', JStr ''Updated Project Name'')]" True "''project''",
        THEN conjunct2, THEN conjunct2, rule_format, of "JStr ''Updated Project Name''"] none
    by simp
  show ?thesis
    using up renamed refused missing
    by (simp add: patch_palette_def patch_project_def only_name_def palettes m1 m2)
qed


section \<open>Datastore failures\<close>

lemma get_projects_failure:
  assumes "get_projects s = (out, s')" "length (issued s) \<le> i" "i < length (issued s')"
    "answers s i = Rejects e"
  shows "out = failure e"
proof -
  from assms(1) have "issued s' = issued s @ [Select ''projects'']"
    by (auto simp: get_projects_def select_all_def ask_def split: reply.splits)
  with assms(2,3) have "i = length (issued s)" by simp
  with assms(1,4) show ?thesis
    by (auto simp: get_projects_def select_all_def ask_def split: reply.splits)
qed

lemma get_palette_failure:
  assumes "get_palette p s = (out, s')" "length (issued s) \<le> i" "i < length (issued s')"
    "answers s i = Rejects e"
  shows "out = failure e"
proof -
  from assms(1) have "issued s' = issued s @ [Where ''palettes'' ''id'' (JStr p)]"
    by (auto simp: get_palette_def where_eq_def ask_def split: reply.splits list.splits)
  with assms(2,3) have "i = length (issued s)" by simp
  with assms(1,4) show ?thesis
    by (auto simp: get_palette_def where_eq_def ask_def split: reply.splits list.splits)
qed

lemma post_palette_failure:
  assumes "post_palette N p body s = (out, s')" "length (issued s) \<le> i" "i < length (issued s')"
    "answers s i = Rejects e"
  shows "out = failure e"
proof -
  from assms(1) have "issued s' = issued s
      \<or> issued s' = issued s @ [Insert ''palettes'' (new_palette N p body) ''id'']"
    by (auto simp: post_palette_def insert_row_def ask_def Let_def
        split: reply.splits check.splits)
  with assms(2,3) have "i = length (issued s)" by auto
  with assms show ?thesis
    by (auto simp: post_palette_def insert_row_def ask_def Let_def
        split: reply.splits check.splits)
qed

lemma post_project_failure:
  assumes "post_project body s = (out, s')" "length (issued s) \<le> i" "i < length (issued s')"
    "answers s i = Rejects e"
  shows "out = failure e"
proof -
  from assms(1) have "issued s' = issued s
      \<or> issued s' = issued s @ [Insert ''projects'' (own_props body) ''id'']"
    by (auto simp: post_project_def insert_row_def ask_def split: reply.splits if_splits)
  with assms(2,3) have "i = length (issued s)" by auto
  with assms show ?thesis
    by (auto simp: post_project_def insert_row_def ask_def split: reply.splits if_splits)
qed

lemma delete_palette_failure:
  assumes "delete_palette p s = (out, s')" "length (issued s) \<le> i" "i < length (issued s')"
    "answers s i = Rejects e"
  shows "out = failure e"
proof (cases "answers s (length (issued s))")
  case (Rejects e')
  with assms(1) have "issued s' = issued s @ [Where ''palettes'' ''id'' (JStr p)]"
    "out = failure e'"
    by (auto simp: delete_palette_def where_eq_def ask_def)
  with assms(2,3,4) Rejects show ?thesis by (auto simp: le_less_Suc_eq)
next
  case (Resolves k)
  show ?thesis
  proof (cases "present p s = []")
    case True
    with Resolves assms(1) have "issued s' = issued s @ [Where ''palettes'' ''id'' (JStr p)]"
      by (auto simp: delete_palette_def where_eq_def ask_def present_def)
    with assms(2,3,4) Resolves show ?thesis by (auto simp: le_less_Suc_eq)
  next
    case False
    show ?thesis
    proof (cases "answers s (Suc (length (issued s)))")
      case r2: (Rejects e')
      with False Resolves assms(1) have
        "issued s' = issued s @ [Where ''palettes'' ''id'' (JStr p), Del ''palettes'' ''id'' (JStr p)]"
        "out = failure e'"
        by (auto simp: delete_palette_def where_eq_def del_where_def ask_def present_def)
      moreover from this(1) assms(2,3)
      have "i = length (issued s) \<or> i = Suc (length (issued s))"
        by auto
      ultimately show ?thesis using assms(4) Resolves r2 by auto
    next
      case r2: (Resolves k')
      with False Resolves assms(1) have
        "issued s' = issued s @ [Where ''palettes'' ''id'' (JStr p), Del ''palettes'' ''id'' (JStr p)]"
        by (auto simp: delete_palette_def where_eq_def del_where_def ask_def present_def)
      with assms(2,3) have "i = length (issued s) \<or> i = Suc (length (issued s))"
        by auto
      with assms(4) Resolves r2 show ?thesis by auto
    qed
  qed
qed

text \<open>
  C9. For each of the five handlers of the source: when a query that the handler issues
  while it serves a request is rejected by the datastore with an error \<open>e\<close>, the handler
  responds 500 with the JSON body \<^verbatim>\<open>{error: e}\<close>, the error of the store itself, and
  with nothing else.
\<close>

theorem datastore_failure_500:
  assumes "handle Number rq s = (out, s')"
    and "length (issued s) \<le> i" and "i < length (issued s')"
    and "answers s i = Rejects e"
  shows "out = Response 500 (Json (JObj [(''error'', e)]))"
proof (cases rq)
  case GET_projects
  with assms show ?thesis
    using get_projects_failure [of s out s' i e] by (simp add: failure_def)
next
  case (GET_palette p)
  with assms show ?thesis
    using get_palette_failure [of p s out s' i e] by (simp add: failure_def)
next
  case (POST_palette p body)
  with assms show ?thesis
    using post_palette_failure [of Number p body s out s' i e] by (simp add: failure_def)
next
  case (POST_project body)
  with assms show ?thesis
    using post_project_failure [of body s out s' i e] by (simp add: failure_def)
next
  case (DELETE_palette p)
  with assms show ?thesis
    using delete_palette_failure [of p s out s' i e] by (simp add: failure_def)
qed

theorem datastore_failure_500_witness:
  "handle to_number (POST_project (JObj [(''name'', JStr ''Test Project'')])) down =
     (Response 500 (Json (JObj [(''error'', JStr ''ECONNREFUSED'')])),
      asked (Insert ''projects'' [(''name'', JStr ''Test Project'')] ''id'') down)
   \<and> answers down 0 = Rejects (JStr ''ECONNREFUSED'')
   \<and> handle to_number (DELETE_palette ''1'') flaky =
     (Response 500 (Json (JObj [(''error'', JStr ''ETIMEDOUT'')])),
      asked (Del ''palettes'' ''id'' (JStr ''1'')) (asked (Where ''palettes'' ''id'' (JStr ''1'')) flaky))
   \<and> answers flaky 1 = Rejects (JStr ''ETIMEDOUT'')"
proof -
  have a0: "answers down 0 = Rejects (JStr ''ECONNREFUSED'')"
    and a1: "answers flaky 1 = Rejects (JStr ''ETIMEDOUT'')"
    and none: "issued down = []" "issued flaky = []"
    by (simp_all add: down_def flaky_def seeded_def)
  have post: "handle to_number (POST_project (JObj [(''name'', JStr ''Test Project'')])) down =
     (fst (post_project (JObj [(''name'', JStr ''Test Project'')]) down),
      asked (Insert ''projects'' [(''name'', JStr ''Test Project'')] ''id'') down)"
    by (simp add: post_project_def insert_row_answer none a0)
  have del: "handle to_number (DELETE_palette ''1'') flaky =
     (fst (delete_palette ''1'' flaky),
      asked (Del ''palettes'' ''id'' (JStr ''1'')) (asked (Where ''palettes'' ''id'' (JStr ''1'')) flaky))"
    by (simp add: delete_palette_def where_eq_def del_where_def ask_def asked_def flaky_def
        seeded_def matching_def as_text_def warm_def cool_def dec.simps digit_def)
  have "fst (post_project (JObj [(''name'', JStr ''Test Project'')]) down) =
      Response 500 (Json (JObj [(''error'', JStr ''ECONNREFUSED'')]))"
    using datastore_failure_500 [OF post _ _ a0] by (simp add: none)
  moreover have "fst (delete_palette ''1'' flaky) =
      Response 500 (Json (JObj [(''error'', JStr ''ETIMEDOUT'')]))"
    using datastore_failure_500 [OF del _ _ a1] by (simp add: none)
  ultimately show ?thesis
    using post del a0 a1 by simp
qed

section \<open>The project of a new palette\<close>

text \<open>
  C10. In POST /projects/:id/palettes the palette gets its \<^verbatim>\<open>projects_id\<close> from the path
  parameter before the required parameters are checked, whatever the body says. So no
  request is answered with the 422 that names a missing \<^verbatim>\<open>projects_id\<close>; the
  \<^verbatim>\<open>projects_id\<close> of the palette is the number of the path parameter; and the value of
  a \<^verbatim>\<open>projects_id\<close> in the body changes neither the response nor the row that is
  inserted, whose fields are those of the same body without a \<^verbatim>\<open>projects_id\<close>.
\<close>

theorem projects_id_from_path:
  "fst (post_palette Number projects_id body s) \<noteq>
     Response 422 (Json (JObj [(''error'', JStr (missing_message ''projects_id''))]))
   \<and> map_of (new_palette Number projects_id body) ''projects_id'' = Some (JNum (Number projects_id))
   \<and> post_palette Number projects_id (JObj (AList.update ''projects_id'' v kvs)) s =
       post_palette Number projects_id (JObj (AList.update ''projects_id'' w kvs)) s
   \<and> map_of (new_palette Number projects_id (JObj kvs)) =
       map_of (new_palette Number projects_id (JObj (AList.delete ''projects_id'' kvs)))"
proof -
  have "fst (post_palette Number projects_id body s) \<noteq>
     Response 422 (Json (JObj [(''error'', JStr (missing_message ''projects_id''))]))"
  proof (cases "validate required (new_palette Number projects_id body)")
    case Pass
    then show ?thesis
      by (simp add: post_palette_def Let_def insert_row_answer created_def failure_def
          split: reply.split)
  next
    case (Missing p)
    from validate_Missing_mem [OF this] have "p \<noteq> ''projects_id''" by auto
    with Missing show ?thesis by (simp add: post_palette_def Let_def)
  next
    case NotAFunction
    then show ?thesis by (simp add: post_palette_def Let_def)
  qed
  moreover have "new_palette Number projects_id (JObj (AList.update ''projects_id'' v kvs)) =
      new_palette Number projects_id (JObj (AList.update ''projects_id'' w kvs))"
    by (simp add: new_palette_def update_update_same)
  moreover have "map_of (new_palette Number projects_id (JObj kvs)) =
      map_of (new_palette Number projects_id (JObj (AList.delete ''projects_id'' kvs)))"
    by (simp add: new_palette_def update_conv' delete_conv')
  ultimately show ?thesis by (simp add: post_palette_def)
qed


end
